theory Spec2Isabelle
  imports Main "HOL-Library.Multiset"
begin

section \<open>Data model\<close>

text \<open>
  \<^verbatim>\<open>src/lib/types.ts\<close>: a \<^verbatim>\<open>MediaItem\<close> is identified by its \<^verbatim>\<open>id\<close> (a string).
  The field \<^verbatim>\<open>id\<close> is called \<open>item_id\<close> here, since \<open>id\<close> is the identity function of HOL.
  The fields that none of the modelled functions reads (\<^verbatim>\<open>imageUrl\<close>, \<^verbatim>\<open>rating\<close>,
  \<^verbatim>\<open>duration\<close>, \<^verbatim>\<open>cast\<close>, ...) are left out.
\<close>

datatype MediaType = Movie | Series | Book | Music

record MediaItem =
  item_id :: string
  media_type :: MediaType
  title :: string
  description :: string
  year :: int
  genres :: "string list"

datatype Action = Like | Dislike | Superlike | Skip

text \<open>
  The argument type \<^verbatim>\<open>{ itemId; action }\<close> of the preference updaters, and
  \<^verbatim>\<open>UserInteraction\<close>, which extends it by a timestamp.
\<close>

record Interaction =
  itemId :: string
  action :: Action

record UserInteraction = Interaction +
  interaction_timestamp :: int

text \<open>\<^verbatim>\<open>interface ChosenItem { id: string; timestamp: number }\<close> of daily-choices.\<close>

record ChosenItem =
  chosen_id :: string
  timestamp :: int

text \<open>Exceptions are values: what a \<^verbatim>\<open>throw\<close> carries to the nearest \<^verbatim>\<open>catch\<close>.\<close>

datatype error = SyntaxError | Error string

section \<open>Arrays\<close>

text \<open>
  \<^verbatim>\<open>Array.prototype.slice(start, end)\<close> on integer arguments: a negative index counts
  from the end of the array, and both indices are clamped to the array.
\<close>

definition slice :: "'a list \<Rightarrow> int \<Rightarrow> int \<Rightarrow> 'a list" where
  "slice xs start fin =
     (let len = int (length xs);
          k = (if start < 0 then max (len + start) 0 else min start len);
          final = (if fin < 0 then max (len + fin) 0 else min fin len)
      in take (nat (final - k)) (drop (nat k) xs))"

text \<open>
  \<^verbatim>\<open>[...new Set(xs)]\<close>: a \<^verbatim>\<open>Set\<close> keeps its elements in insertion order, and inserting an
  element it already has changes nothing, so the first occurrence of each element stays.
\<close>

definition Set_add :: "'a \<Rightarrow> 'a list \<Rightarrow> 'a list" where
  "Set_add x acc = (if x \<in> set acc then acc else acc @ [x])"

definition spread_Set :: "'a list \<Rightarrow> 'a list" where
  "spread_Set xs = fold Set_add xs []"

section \<open>The daily quota (daily-choices)\<close>

text \<open>
  The value stored under the key \<^verbatim>\<open>indicai_chosen_today\<close> is a string. The model keeps
  what the code can tell apart: the empty string (falsy), a string on which
  \<^verbatim>\<open>JSON.parse\<close> throws, and the string \<^verbatim>\<open>JSON.stringify(xs)\<close> of an array of chosen items,
  which is the only value the code itself ever writes.

  A string that is valid JSON of another shape (\<^verbatim>\<open>null\<close>, a number, an object) is not
  represented. \<^verbatim>\<open>getChosenItemsToday\<close> returns what \<^verbatim>\<open>JSON.parse\<close> returns without
  looking at it, so that on such a value \<^verbatim>\<open>chosenItems.length\<close>, \<^verbatim>\<open>chosenItems.some\<close> and
  \<^verbatim>\<open>chosenItems.map\<close> of the functions below throw a \<^verbatim>\<open>TypeError\<close>. The theorems of this
  theory are about the storage states that are represented and say nothing about the
  others.
\<close>

datatype stored_chosen = EmptyString | Unparsable | Stringified "ChosenItem list"

fun JSON_parse :: "stored_chosen \<Rightarrow> error + ChosenItem list" where
  "JSON_parse EmptyString = Inl SyntaxError"
| "JSON_parse Unparsable = Inl SyntaxError"
| "JSON_parse (Stringified xs) = Inr xs"

text \<open>
  \<^verbatim>\<open>window.localStorage\<close>, restricted to the two keys the module uses; \<open>None\<close> is a key
  that is not set (\<^verbatim>\<open>getItem\<close> returns \<^verbatim>\<open>null\<close>).
\<close>

record Storage =
  indicai_chosen_today :: "stored_chosen option"
  indicai_last_reset_date :: "string option"

text \<open>
  The execution context: \<open>None\<close> when \<^verbatim>\<open>typeof window === 'undefined'\<close> (server side),
  otherwise the browser's storage. Every function takes the context and returns it
  updated. The clock is explicit: \<open>today\<close> is what \<^verbatim>\<open>getCurrentDate()\<close> returns and
  \<open>now\<close> is \<^verbatim>\<open>Date.now()\<close>.
\<close>

type_synonym Window = "Storage option"

definition DAILY_LIMIT :: int where
  "DAILY_LIMIT = 20"

definition isClientSide :: "Window \<Rightarrow> bool" where
  "isClientSide w = (w \<noteq> None)"

definition getLocalStorage :: "Window \<Rightarrow> Storage option" where
  "getLocalStorage w = (if isClientSide w then w else None)"

definition shouldResetDailyCount :: "string \<Rightarrow> Window \<Rightarrow> bool" where
  "shouldResetDailyCount today w =
     (if \<not> isClientSide w then False
      else case getLocalStorage w of
             None \<Rightarrow> False
           | Some localStorage \<Rightarrow> indicai_last_reset_date localStorage \<noteq> Some today)"

definition resetDailyCountIfNeeded :: "string \<Rightarrow> Window \<Rightarrow> Window" where
  "resetDailyCountIfNeeded today w =
     (if \<not> isClientSide w then w
      else case getLocalStorage w of
             None \<Rightarrow> w
           | Some localStorage \<Rightarrow>
               if shouldResetDailyCount today w
               then Some (localStorage\<lparr>indicai_chosen_today := None,
                                       indicai_last_reset_date := Some today\<rparr>)
               else w)"

definition getChosenItemsToday :: "string \<Rightarrow> Window \<Rightarrow> ChosenItem list \<times> Window" where
  "getChosenItemsToday today w =
     (if \<not> isClientSide w then ([], w)
      else let w1 = resetDailyCountIfNeeded today w in
           case getLocalStorage w1 of
             None \<Rightarrow> ([], w1)
           | Some localStorage \<Rightarrow>
               (case indicai_chosen_today localStorage of
                  None \<Rightarrow> ([], w1)
                | Some EmptyString \<Rightarrow> ([], w1)
                | Some chosenItemsStr \<Rightarrow>
                    (case JSON_parse chosenItemsStr of
                       Inr items \<Rightarrow> (items, w1)
                     | Inl e \<Rightarrow> ([], w1))))"

definition addChosenItem :: "string \<Rightarrow> int \<Rightarrow> string \<Rightarrow> Window \<Rightarrow> bool \<times> Window" where
  "addChosenItem today now ident w =
     (if \<not> isClientSide w then (True, w)
      else let w1 = resetDailyCountIfNeeded today w in
           case getLocalStorage w1 of
             None \<Rightarrow> (True, w1)
           | Some _ \<Rightarrow>
               let (chosenItems, w2) = getChosenItemsToday today w1 in
               if int (length chosenItems) \<ge> DAILY_LIMIT then (False, w2)
               else if list_ex (\<lambda>item. chosen_id item = ident) chosenItems then (True, w2)
               else let newChosenItem = \<lparr>chosen_id = ident, timestamp = now\<rparr>;
                        updatedChosenItems = chosenItems @ [newChosenItem]
                    in (True,
                        map_option
                          (\<lambda>localStorage. localStorage
                             \<lparr>indicai_chosen_today := Some (Stringified updatedChosenItems)\<rparr>)
                          w2))"

definition getRemainingChoices :: "string \<Rightarrow> Window \<Rightarrow> int \<times> Window" where
  "getRemainingChoices today w =
     (if \<not> isClientSide w then (DAILY_LIMIT, w)
      else let w1 = resetDailyCountIfNeeded today w;
               (chosenItems, w2) = getChosenItemsToday today w1
           in (max 0 (DAILY_LIMIT - int (length chosenItems)), w2))"

definition isDailyLimitReached :: "string \<Rightarrow> Window \<Rightarrow> bool \<times> Window" where
  "isDailyLimitReached today w =
     (if \<not> isClientSide w then (False, w)
      else let (remaining, w1) = getRemainingChoices today w in (remaining \<le> 0, w1))"

definition filterOutChosenItems ::
  "string \<Rightarrow> MediaItem list \<Rightarrow> Window \<Rightarrow> MediaItem list \<times> Window" where
  "filterOutChosenItems today items w =
     (if \<not> isClientSide w then (items, w)
      else let (chosenItems, w1) = getChosenItemsToday today w;
               chosenIds = set (map chosen_id chosenItems)
           in (filter (\<lambda>item. item_id item \<notin> chosenIds) items, w1))"

text \<open>
  \<^verbatim>\<open>[...items].sort(() => 0.5 - Math.random())\<close> rearranges a copy of the array in an
  order that depends on the random numbers drawn and on the engine's sorting algorithm.
  The model takes the rearrangement as the parameter \<open>shuffle\<close>; the theorems below
  assume of it only that it returns a permutation of its argument. The parameter
  \<^verbatim>\<open>count\<close> is called \<open>cnt\<close>, since \<open>count\<close> is a constant of the multiset library.
\<close>

definition getRandomUnchosenSelection ::
  "(MediaItem list \<Rightarrow> MediaItem list) \<Rightarrow> string \<Rightarrow> MediaItem list \<Rightarrow> int \<Rightarrow> Window
     \<Rightarrow> MediaItem list \<times> Window" where
  "getRandomUnchosenSelection shuffle today items cnt w =
     (if \<not> isClientSide w
      then (let shuffled = shuffle items
            in (slice shuffled 0 (min cnt (int (length items))), w))
      else let (unchosenItems, w1) = filterOutChosenItems today items w;
               (remainingChoices, w2) = getRemainingChoices today w1;
               maxSelectable = min cnt remainingChoices
           in if maxSelectable \<le> 0 then ([], w2)
              else (let shuffled = shuffle unchosenItems
                    in (slice shuffled 0 maxSelectable, w2)))"

section \<open>The preference updaters\<close>

text \<open>
  \<^verbatim>\<open>getMediaDetails\<close> of \<^verbatim>\<open>src/lib/recommendations.ts\<close>. The catalog call
  \<^verbatim>\<open>fetchTmdbDetails(mediaType, id)\<close> is a parameter whose outcome is an item, \<^verbatim>\<open>null\<close>
  or an exception; the inner \<^verbatim>\<open>try\<close> turns an exception into "no details". The bundled
  dataset \<^verbatim>\<open>mockMediaItems\<close> of \<^verbatim>\<open>./mock-data\<close> is a parameter too.
\<close>

definition getMediaDetails ::
  "(string \<Rightarrow> string \<Rightarrow> error + MediaItem option) \<Rightarrow> MediaItem list \<Rightarrow> string
     \<Rightarrow> MediaItem option" where
  "getMediaDetails fetchTmdbDetails mockMediaItems ident =
     (let details =
            (case fetchTmdbDetails ''movie'' ident of
               Inl e \<Rightarrow> None
             | Inr (Some d) \<Rightarrow> Some d
             | Inr None \<Rightarrow>
                 (case fetchTmdbDetails ''tv'' ident of
                    Inl e \<Rightarrow> None
                  | Inr d \<Rightarrow> d))
      in case details of
           Some d \<Rightarrow> Some d
         | None \<Rightarrow> find (\<lambda>item. item_id item = ident) mockMediaItems)"

text \<open>
  The loop \<^verbatim>\<open>for (const genre of item.genres) if (!newPreferences.includes(genre))
  newPreferences.push(genre)\<close>.
\<close>

definition push_genres :: "string list \<Rightarrow> string list \<Rightarrow> string list" where
  "push_genres itemGenres newPreferences =
     fold (\<lambda>genre np. if genre \<in> set np then np else np @ [genre]) itemGenres newPreferences"

definition updateUserProfile ::
  "string list \<Rightarrow> Interaction \<Rightarrow> MediaItem list \<Rightarrow> string list" where
  "updateUserProfile currentPreferences interaction allMediaItems =
     (let item = find (\<lambda>m. item_id m = itemId interaction) allMediaItems;
          newPreferences = currentPreferences;
          newPreferences =
            (if action interaction = Like \<or> action interaction = Superlike
             then (case item of
                     Some it \<Rightarrow> push_genres (genres it) newPreferences
                   | None \<Rightarrow> newPreferences)
             else newPreferences);
          newPreferences = spread_Set newPreferences
      in slice newPreferences 0 15)"

definition updateUserProfileWithInteraction ::
  "(string \<Rightarrow> string \<Rightarrow> error + MediaItem option) \<Rightarrow> MediaItem list
     \<Rightarrow> string list \<Rightarrow> Interaction \<Rightarrow> string list" where
  "updateUserProfileWithInteraction fetchTmdbDetails mockMediaItems currentPreferences interaction =
     (case getMediaDetails fetchTmdbDetails mockMediaItems (itemId interaction) of
        None \<Rightarrow> currentPreferences
      | Some item \<Rightarrow>
          (let newPreferences = currentPreferences;
               newPreferences =
                 (if action interaction = Like \<or> action interaction = Superlike
                  then push_genres (genres item) newPreferences
                  else newPreferences);
               newPreferences = spread_Set newPreferences
           in slice newPreferences 0 10))"

text \<open>The invariant of a preference list: no duplicate label, at most \<open>cap\<close> labels.\<close>

definition pref_inv :: "nat \<Rightarrow> string list \<Rightarrow> bool" where
  "pref_inv cap ps = (distinct ps \<and> length ps \<le> cap)"

section \<open>The re-ranker (gemini-ai)\<close>

text \<open>
  \<^verbatim>\<open>response.match(/\b\d+\b/g) || []\<close>. \<^verbatim>\<open>\d\<close> is an ASCII digit and \<^verbatim>\<open>\w\<close> is an ASCII
  letter, a digit or the underscore; \<^verbatim>\<open>\b\<close> holds between two positions exactly one of
  which is a \<^verbatim>\<open>\w\<close> character (the ends of the text count as not \<^verbatim>\<open>\w\<close>).

  \<open>match_all prev s\<close> scans the rest \<open>s\<close> of the text, \<open>prev\<close> being the character before
  it. A match starts at a digit that follows a boundary; \<^verbatim>\<open>\d+\<close> takes the whole run of
  digits, and the closing \<^verbatim>\<open>\b\<close> holds if the run is not followed by a \<^verbatim>\<open>\w\<close> character.
  Giving digits back cannot help, since between two digits there is no boundary. After
  a match the scan goes on behind it, otherwise one character further.
\<close>

definition is_digit :: "char \<Rightarrow> bool" where
  "is_digit c = (c \<in> set ''0123456789'')"

definition is_word_char :: "char \<Rightarrow> bool" where
  "is_word_char c =
     (c \<in> set ''abcdefghijklmnopqrstuvwxyzABCDEFGHIJKLMNOPQRSTUVWXYZ0123456789_'')"

definition word_before :: "char option \<Rightarrow> bool" where
  "word_before prev = (case prev of None \<Rightarrow> False | Some c \<Rightarrow> is_word_char c)"

definition word_ahead :: "string \<Rightarrow> bool" where
  "word_ahead s = (case s of [] \<Rightarrow> False | c # _ \<Rightarrow> is_word_char c)"

function match_all :: "char option \<Rightarrow> string \<Rightarrow> string list" where
  "match_all prev [] = []"
| "match_all prev (c # cs) =
     (if is_digit c \<and> \<not> word_before prev \<and> \<not> word_ahead (dropWhile is_digit cs)
      then (c # takeWhile is_digit cs)
             # match_all (Some (last (c # takeWhile is_digit cs))) (dropWhile is_digit cs)
      else match_all (Some c) cs)"
  by pat_completeness auto
termination
  by (relation "measure (\<lambda>(prev, s). length s)")
     (auto simp: le_imp_less_Suc length_dropWhile_le)

text \<open>
  \<^verbatim>\<open>parseGeminiResponse\<close>. Nothing in the \<^verbatim>\<open>try\<close> block throws on a string, so the
  \<^verbatim>\<open>catch\<close> branch (a random selection) is never taken.
\<close>

definition parseGeminiResponse :: "string \<Rightarrow> MediaItem list \<Rightarrow> string list" where
  "parseGeminiResponse response availableItems =
     (let idMatches = match_all None response;
          validIds = filter (\<lambda>ident. list_ex (\<lambda>item. item_id item = ident) availableItems)
                       idMatches
      in slice (spread_Set validIds) 0 10)"

text \<open>
  The last expression of \<^verbatim>\<open>getGeminiPersonalizedRecommendations\<close>:
  \<^verbatim>\<open>recommendedIds.map(id => tmdbRecommendations.find(item => item.id === id))
  .filter(item => item !== undefined).slice(0, 10)\<close>.
\<close>

definition recommended_items :: "string list \<Rightarrow> MediaItem list \<Rightarrow> MediaItem list" where
  "recommended_items recommendedIds tmdbRecommendations =
     slice
       (map the
          (filter (\<lambda>item. item \<noteq> None)
             (map (\<lambda>ident. find (\<lambda>item. item_id item = ident) tmdbRecommendations)
                recommendedIds)))
       0 10"

text \<open>
  \<^verbatim>\<open>getGeminiPersonalizedRecommendations\<close>. The credential is \<open>None\<close> when the environment
  variable is not set; the empty string is falsy as well. Building the prompt, the HTTP
  call, the status check and reading the text out of the JSON answer
  (\<^verbatim>\<open>... || ""\<close>) are the parameter \<open>callGemini\<close>, whose outcome is the response text or
  an exception.
\<close>

definition getGeminiPersonalizedRecommendations ::
  "string option
     \<Rightarrow> (string \<Rightarrow> string list \<Rightarrow> UserInteraction list \<Rightarrow> MediaItem list \<Rightarrow> error + string)
     \<Rightarrow> string list \<Rightarrow> UserInteraction list \<Rightarrow> MediaItem list \<Rightarrow> MediaItem list" where
  "getGeminiPersonalizedRecommendations GEMINI_API_KEY callGemini userPreferences userHistory
       tmdbRecommendations =
     (case GEMINI_API_KEY of
        None \<Rightarrow> tmdbRecommendations
      | Some key \<Rightarrow>
          if key = [] then tmdbRecommendations
          else (case callGemini key userPreferences (slice userHistory (- 20) (int (length userHistory)))
                       tmdbRecommendations of
                  Inl e \<Rightarrow> tmdbRecommendations
                | Inr geminiResponse \<Rightarrow>
                    (let recommendedIds = parseGeminiResponse geminiResponse tmdbRecommendations
                     in recommended_items recommendedIds tmdbRecommendations)))"

text \<open>
  The extraction in the words of the specification: walk through the tokens in order of
  appearance, skip a token that matches no candidate id or was taken before, and stop
  after \<open>n\<close> tokens.
\<close>

fun first_unique_matching :: "nat \<Rightarrow> string list \<Rightarrow> string list \<Rightarrow> string list \<Rightarrow> string list" where
  "first_unique_matching n seen ids [] = []"
| "first_unique_matching n seen ids (t # ts) =
     (if n = 0 then []
      else if t \<in> set ids \<and> t \<notin> set seen
           then t # first_unique_matching (n - 1) (t # seen) ids ts
           else first_unique_matching n seen ids ts)"

section \<open>The list handed to the selector\<close>

text \<open>
  \<^verbatim>\<open>getPersonalizedRecommendations\<close> of \<^verbatim>\<open>src/lib/recommendations.ts\<close> goes on with
  \<^verbatim>\<open>geminiRecommendations.length > 0 ? geminiRecommendations : tmdbRecommendations\<close>.
\<close>

definition finalRecommendations :: "MediaItem list \<Rightarrow> MediaItem list \<Rightarrow> MediaItem list" where
  "finalRecommendations geminiRecommendations tmdbRecommendations =
     (if length geminiRecommendations > 0 then geminiRecommendations else tmdbRecommendations)"

section \<open>Concrete data for the examples\<close>

definition medium :: "string \<Rightarrow> string list \<Rightarrow> MediaItem" where
  "medium ident gs =
     \<lparr>item_id = ident, media_type = Movie, title = ''Title '' @ ident, description = [],
      year = 2020, genres = gs\<rparr>"

definition twenty_chosen :: "ChosenItem list" where
  "twenty_chosen =
     map (\<lambda>c. \<lparr>chosen_id = [c], timestamp = 1700000000000\<rparr>) ''abcdefghijklmnopqrst''"

definition fresh_storage :: Storage where
  "fresh_storage =
     \<lparr>indicai_chosen_today = None, indicai_last_reset_date = Some ''2025-03-01''\<rparr>"

definition full_storage :: Storage where
  "full_storage =
     \<lparr>indicai_chosen_today = Some (Stringified twenty_chosen),
      indicai_last_reset_date = Some ''2025-03-01''\<rparr>"

section \<open>Facts about slices and the quota store\<close>

lemma slice_0_nonneg: "0 \<le> n \<Longrightarrow> slice xs 0 n = take (nat n) xs"
  by (simp add: slice_def Let_def min_def)

lemma slice_0_neg: "n < 0 \<Longrightarrow> slice xs 0 n = take (nat (int (length xs) + n)) xs"
  by (simp add: slice_def Let_def max_def)

lemma reset_Some:
  "resetDailyCountIfNeeded today (Some ls) =
     Some (if indicai_last_reset_date ls = Some today then ls
           else ls\<lparr>indicai_chosen_today := None, indicai_last_reset_date := Some today\<rparr>)"
  by (simp add: resetDailyCountIfNeeded_def shouldResetDailyCount_def isClientSide_def
      getLocalStorage_def)

lemma slice_0_pos: "\<not> n \<le> 0 \<Longrightarrow> slice xs 0 n = take (nat n) xs"
  by (simp add: slice_0_nonneg)

lemma reset_server: "\<not> isClientSide w \<Longrightarrow> resetDailyCountIfNeeded today w = w"
  by (simp add: resetDailyCountIfNeeded_def)

lemma reset_idem:
  "resetDailyCountIfNeeded today (resetDailyCountIfNeeded today w) = resetDailyCountIfNeeded today w"
  by (cases w) (simp_all add: reset_Some, simp add: resetDailyCountIfNeeded_def isClientSide_def)

lemma reset_client: "isClientSide (resetDailyCountIfNeeded today w) = isClientSide w"
  by (cases w) (simp_all add: reset_Some isClientSide_def, simp add: resetDailyCountIfNeeded_def isClientSide_def)

lemma getChosen_snd: "snd (getChosenItemsToday today w) = resetDailyCountIfNeeded today w"
proof (cases w)
  case None
  then show ?thesis
    by (simp add: getChosenItemsToday_def resetDailyCountIfNeeded_def isClientSide_def)
next
  case (Some ls)
  then show ?thesis
    by (simp add: getChosenItemsToday_def reset_Some isClientSide_def getLocalStorage_def Let_def
        split: option.splits stored_chosen.splits sum.splits)
qed

lemma getChosen_reset:
  "getChosenItemsToday today (resetDailyCountIfNeeded today w) = getChosenItemsToday today w"
  by (simp add: getChosenItemsToday_def reset_idem reset_client reset_server Let_def)

lemma getChosen_pair:
  "getChosenItemsToday today w = (fst (getChosenItemsToday today w), resetDailyCountIfNeeded today w)"
  by (metis getChosen_snd prod.collapse)

lemma getRemaining_eq:
  "getRemainingChoices today (Some ls) =
     (max 0 (DAILY_LIMIT - int (length (fst (getChosenItemsToday today (Some ls))))),
      resetDailyCountIfNeeded today (Some ls))"
  unfolding getRemainingChoices_def Let_def getChosen_reset
  by (subst getChosen_pair) (simp add: isClientSide_def)

lemma filterOut_eq:
  "filterOutChosenItems today items (Some ls) =
     (filter (\<lambda>item. item_id item \<notin> chosen_id ` set (fst (getChosenItemsToday today (Some ls)))) items,
      resetDailyCountIfNeeded today (Some ls))"
  unfolding filterOutChosenItems_def Let_def
  by (subst getChosen_pair) (simp add: isClientSide_def)

lemma select_client_eq:
  "getRandomUnchosenSelection shuffle today items cnt (Some ls) =
     (let chosenItems = fst (getChosenItemsToday today (Some ls));
          unchosenItems = filter (\<lambda>item. item_id item \<notin> chosen_id ` set chosenItems) items;
          maxSelectable = min cnt (max 0 (DAILY_LIMIT - int (length chosenItems)))
      in (if maxSelectable \<le> 0 then [] else take (nat maxSelectable) (shuffle unchosenItems),
          resetDailyCountIfNeeded today (Some ls)))"
proof -
  obtain ls' where r: "resetDailyCountIfNeeded today (Some ls) = Some ls'"
    by (simp add: reset_Some)
  have g: "getChosenItemsToday today (Some ls') = getChosenItemsToday today (Some ls)"
    using getChosen_reset [of today "Some ls"] r by simp
  have r': "resetDailyCountIfNeeded today (Some ls') = Some ls'"
    using reset_idem [of today "Some ls"] r by simp
  show ?thesis
    unfolding getRandomUnchosenSelection_def
    by (simp add: isClientSide_def filterOut_eq r getRemaining_eq g r' Let_def slice_0_pos)
qed

lemma add_client_eq:
  "addChosenItem today now ident (Some ls) =
     (let chosenItems = fst (getChosenItemsToday today (Some ls));
          w1 = resetDailyCountIfNeeded today (Some ls)
      in if int (length chosenItems) \<ge> DAILY_LIMIT then (False, w1)
         else if ident \<in> chosen_id ` set chosenItems then (True, w1)
         else (True, map_option (\<lambda>s. s\<lparr>indicai_chosen_today :=
                   Some (Stringified (chosenItems @ [\<lparr>chosen_id = ident, timestamp = now\<rparr>]))\<rparr>) w1))"
proof -
  obtain ls' where r: "resetDailyCountIfNeeded today (Some ls) = Some ls'"
    by (simp add: reset_Some)
  have g: "getChosenItemsToday today (Some ls') = getChosenItemsToday today (Some ls)"
    using getChosen_reset [of today "Some ls"] r by simp
  obtain xs where p: "getChosenItemsToday today (Some ls) = (xs, Some ls')"
    using getChosen_pair [of today "Some ls"] r by simp
  have ex: "list_ex (\<lambda>item. chosen_id item = ident) ys = (ident \<in> chosen_id ` set ys)"
    for ys :: "ChosenItem list"
    by (auto simp: list_ex_iff)
  show ?thesis
    unfolding addChosenItem_def
    by (simp add: isClientSide_def r getLocalStorage_def g Let_def ex p)
qed

lemma reset_shape:
  "\<exists>ls'. resetDailyCountIfNeeded today (Some ls) = Some ls'
         \<and> indicai_last_reset_date ls' = Some today
         \<and> indicai_chosen_today ls' =
             (if indicai_last_reset_date ls = Some today then indicai_chosen_today ls else None)"
  by (simp add: reset_Some)

lemma today_items_current:
  "indicai_last_reset_date ls = Some today \<Longrightarrow>
   getChosenItemsToday today (Some ls) =
     ((case indicai_chosen_today ls of Some (Stringified xs) \<Rightarrow> xs | _ \<Rightarrow> []), Some ls)"
  by (simp add: getChosenItemsToday_def reset_Some isClientSide_def getLocalStorage_def Let_def
      split: option.splits stored_chosen.splits)

lemma today_items_stale:
  "indicai_last_reset_date ls \<noteq> Some today \<Longrightarrow>
   getChosenItemsToday today (Some ls) =
     ([], Some (ls\<lparr>indicai_chosen_today := None, indicai_last_reset_date := Some today\<rparr>))"
  by (simp add: getChosenItemsToday_def reset_Some isClientSide_def getLocalStorage_def Let_def)

section \<open>The quota store without persistent storage\<close>

text \<open>
  On the server side (no \<^verbatim>\<open>window\<close>) \<^verbatim>\<open>getChosenItemsToday\<close> returns the empty list,
  \<^verbatim>\<open>addChosenItem\<close> returns true, \<^verbatim>\<open>getRemainingChoices\<close> returns the full limit 20,
  \<^verbatim>\<open>isDailyLimitReached\<close> is false, and for a count that is not negative
  \<^verbatim>\<open>getRandomUnchosenSelection\<close> returns the first \<open>min count (length items)\<close> items of
  the shuffled candidate list, all candidates taking part: nothing is filtered and
  nothing is stored.
\<close>

theorem server_side_quota_is_permissive:
  assumes "mset (shuffle items) = mset items" and "0 \<le> cnt"
  shows "getChosenItemsToday today None = ([], None)
       \<and> addChosenItem today now ident None = (True, None)
       \<and> getRemainingChoices today None = (20, None)
       \<and> isDailyLimitReached today None = (False, None)
       \<and> getRandomUnchosenSelection shuffle today items cnt None =
           (take (nat (min cnt (int (length items)))) (shuffle items), None)
       \<and> int (length (fst (getRandomUnchosenSelection shuffle today items cnt None))) =
           min cnt (int (length items))"
proof -
  have len: "length (shuffle items) = length items"
    using assms(1) by (metis size_mset)
  have sel: "getRandomUnchosenSelection shuffle today items cnt None =
           (take (nat (min cnt (int (length items)))) (shuffle items), None)"
    using assms(2)
    by (simp add: getRandomUnchosenSelection_def isClientSide_def slice_0_nonneg)
  have n: "int (length (take (nat (min cnt (int (length items)))) (shuffle items))) =
           min cnt (int (length items))"
    using assms(2) by (simp add: len min_def) linarith
  show ?thesis
    using n
    by (simp add: sel getChosenItemsToday_def addChosenItem_def getRemainingChoices_def
        isDailyLimitReached_def isClientSide_def DAILY_LIMIT_def)
qed

text \<open>The theorem at three candidates, a count of 2 and the reversal as the shuffle.\<close>

theorem server_side_quota_is_permissive_witness:
  "mset (rev [medium ''1'' [], medium ''2'' [], medium ''3'' []])
     = mset [medium ''1'' [], medium ''2'' [], medium ''3'' []]
   \<and> (0::int) \<le> 2
   \<and> getRandomUnchosenSelection rev ''2025-03-01''
        [medium ''1'' [], medium ''2'' [], medium ''3'' []] 2 None
      = ([medium ''3'' [], medium ''2'' []], None)"
  using server_side_quota_is_permissive [of rev "[medium ''1'' [], medium ''2'' [], medium ''3'' []]" 2 "''2025-03-01''" 0 "''1''"]
  by simp


section \<open>Corrupted storage\<close>

text \<open>
  Claim C10. When the value stored under \<^verbatim>\<open>indicai_chosen_today\<close> does not parse as JSON,
  \<^verbatim>\<open>JSON.parse\<close> throws, \<^verbatim>\<open>getChosenItemsToday\<close> catches the exception and returns the
  empty list, and every exported function of the module returns what it returns when
  the key is not set at all; \<^verbatim>\<open>addChosenItem\<close> leaves the same storage behind as well.
\<close>

theorem corrupted_storage_reads_as_empty_day:
  "JSON_parse Unparsable = Inl SyntaxError
   \<and> fst (getChosenItemsToday today (Some (ls\<lparr>indicai_chosen_today := Some Unparsable\<rparr>))) = []
   \<and> fst (getChosenItemsToday today (Some (ls\<lparr>indicai_chosen_today := Some Unparsable\<rparr>)))
       = fst (getChosenItemsToday today (Some (ls\<lparr>indicai_chosen_today := None\<rparr>)))
   \<and> fst (getRemainingChoices today (Some (ls\<lparr>indicai_chosen_today := Some Unparsable\<rparr>)))
       = fst (getRemainingChoices today (Some (ls\<lparr>indicai_chosen_today := None\<rparr>)))
   \<and> fst (filterOutChosenItems today items (Some (ls\<lparr>indicai_chosen_today := Some Unparsable\<rparr>)))
       = fst (filterOutChosenItems today items (Some (ls\<lparr>indicai_chosen_today := None\<rparr>)))
   \<and> fst (getRandomUnchosenSelection shuffle today items cnt
             (Some (ls\<lparr>indicai_chosen_today := Some Unparsable\<rparr>)))
       = fst (getRandomUnchosenSelection shuffle today items cnt
             (Some (ls\<lparr>indicai_chosen_today := None\<rparr>)))
   \<and> addChosenItem today now ident (Some (ls\<lparr>indicai_chosen_today := Some Unparsable\<rparr>))
       = addChosenItem today now ident (Some (ls\<lparr>indicai_chosen_today := None\<rparr>))"
proof -
  have a: "fst (getChosenItemsToday today (Some (ls\<lparr>indicai_chosen_today := Some Unparsable\<rparr>))) = []"
    by (cases "indicai_last_reset_date ls = Some today")
       (simp_all add: today_items_current today_items_stale)
  have b: "fst (getChosenItemsToday today (Some (ls\<lparr>indicai_chosen_today := None\<rparr>))) = []"
    by (cases "indicai_last_reset_date ls = Some today")
       (simp_all add: today_items_current today_items_stale)
  have c: "addChosenItem today now ident (Some (ls\<lparr>indicai_chosen_today := Some Unparsable\<rparr>))
       = addChosenItem today now ident (Some (ls\<lparr>indicai_chosen_today := None\<rparr>))"
    by (simp add: add_client_eq a b reset_Some DAILY_LIMIT_def)
  show ?thesis
    by (simp add: a b c getRemaining_eq filterOut_eq select_client_eq Let_def)
qed

section \<open>Reconciling the stored date\<close>

text \<open>
  Claim C9. On the client side \<^verbatim>\<open>getChosenItemsToday\<close>, \<^verbatim>\<open>getRemainingChoices\<close> and
  \<^verbatim>\<open>addChosenItem\<close> reconcile the stored date before they read: each returns what it
  returns on the reconciled storage. If the stored last-reset date is not the current
  date, the chosen list is removed and the date overwritten, so that the stale records
  are never seen: today's list is empty, 20 choices remain, and an added item becomes the
  only record of the new day.
\<close>

theorem quota_reads_reconcile_the_date_first:
  "getChosenItemsToday today (Some ls)
     = getChosenItemsToday today (resetDailyCountIfNeeded today (Some ls))
   \<and> getRemainingChoices today (Some ls)
     = getRemainingChoices today (resetDailyCountIfNeeded today (Some ls))
   \<and> addChosenItem today now ident (Some ls)
     = addChosenItem today now ident (resetDailyCountIfNeeded today (Some ls))
   \<and> (indicai_last_reset_date ls \<noteq> Some today \<longrightarrow>
        resetDailyCountIfNeeded today (Some ls)
          = Some (ls\<lparr>indicai_chosen_today := None, indicai_last_reset_date := Some today\<rparr>)
        \<and> getChosenItemsToday today (Some ls)
          = ([], Some (ls\<lparr>indicai_chosen_today := None, indicai_last_reset_date := Some today\<rparr>))
        \<and> getRemainingChoices today (Some ls)
          = (20, Some (ls\<lparr>indicai_chosen_today := None, indicai_last_reset_date := Some today\<rparr>))
        \<and> addChosenItem today now ident (Some ls)
          = (True, Some (ls\<lparr>indicai_chosen_today :=
                                Some (Stringified [\<lparr>chosen_id = ident, timestamp = now\<rparr>]),
                              indicai_last_reset_date := Some today\<rparr>)))"
proof -
  obtain ls' where r: "resetDailyCountIfNeeded today (Some ls) = Some ls'"
    by (simp add: reset_Some)
  have g: "getChosenItemsToday today (Some ls') = getChosenItemsToday today (Some ls)"
    using getChosen_reset [of today "Some ls"] r by simp
  have r': "resetDailyCountIfNeeded today (Some ls') = Some ls'"
    using reset_idem [of today "Some ls"] r by simp
  have 1: "getChosenItemsToday today (Some ls)
     = getChosenItemsToday today (resetDailyCountIfNeeded today (Some ls))"
    by (simp add: r g)
  have 2: "getRemainingChoices today (Some ls)
     = getRemainingChoices today (resetDailyCountIfNeeded today (Some ls))"
    by (simp add: r getRemaining_eq g r')
  have 3: "addChosenItem today now ident (Some ls)
     = addChosenItem today now ident (resetDailyCountIfNeeded today (Some ls))"
    by (simp add: r add_client_eq g r')
  have 4: "indicai_last_reset_date ls \<noteq> Some today \<longrightarrow>
        resetDailyCountIfNeeded today (Some ls)
          = Some (ls\<lparr>indicai_chosen_today := None, indicai_last_reset_date := Some today\<rparr>)
        \<and> getChosenItemsToday today (Some ls)
          = ([], Some (ls\<lparr>indicai_chosen_today := None, indicai_last_reset_date := Some today\<rparr>))
        \<and> getRemainingChoices today (Some ls)
          = (20, Some (ls\<lparr>indicai_chosen_today := None, indicai_last_reset_date := Some today\<rparr>))
        \<and> addChosenItem today now ident (Some ls)
          = (True, Some (ls\<lparr>indicai_chosen_today :=
                                Some (Stringified [\<lparr>chosen_id = ident, timestamp = now\<rparr>]),
                              indicai_last_reset_date := Some today\<rparr>))"
    by (simp add: reset_Some today_items_stale getRemaining_eq add_client_eq DAILY_LIMIT_def)
  show ?thesis
    using 1 2 3 4 by blast
qed

text \<open>
  The theorem on a storage that holds twenty records of the first of March: on that day
  nothing remains, on the second of March the full limit does.
\<close>

theorem quota_reads_reconcile_the_date_first_witness:
  "indicai_last_reset_date full_storage \<noteq> Some ''2025-03-02''
   \<and> fst (getChosenItemsToday ''2025-03-02'' (Some full_storage)) = []
   \<and> fst (getRemainingChoices ''2025-03-02'' (Some full_storage)) = 20
   \<and> fst (getRemainingChoices ''2025-03-01'' (Some full_storage)) = 0"
proof -
  have h: "indicai_last_reset_date full_storage \<noteq> Some ''2025-03-02''"
    by (simp add: full_storage_def)
  have z: "fst (getRemainingChoices ''2025-03-01'' (Some full_storage)) = 0"
    by (simp add: getRemaining_eq today_items_current full_storage_def twenty_chosen_def
        DAILY_LIMIT_def)
  note t = quota_reads_reconcile_the_date_first [of "''2025-03-02''" full_storage 0 "''a''"]
  from t h have a: "getChosenItemsToday ''2025-03-02'' (Some full_storage)
          = ([], Some (full_storage\<lparr>indicai_chosen_today := None,
                                      indicai_last_reset_date := Some ''2025-03-02''\<rparr>))"
    by blast
  from t h have b: "getRemainingChoices ''2025-03-02'' (Some full_storage)
          = (20, Some (full_storage\<lparr>indicai_chosen_today := None,
                                      indicai_last_reset_date := Some ''2025-03-02''\<rparr>))"
    by blast
  show ?thesis
    using h z by (simp add: a b)
qed

section \<open>Adding a chosen item\<close>

text \<open>
  Claim C2, as the code has it. \<^verbatim>\<open>addChosenItem\<close> tests the limit before it looks for the
  id. With 20 or more records today it returns false and the storage stays as
  reconciled, whether the id is among the records or not. Below the limit, an id that is
  present gives true and leaves the storage as reconciled, and an id that is absent gives
  true and appends exactly one record with the id and the current timestamp. Adding the
  same id a second time changes nothing, so that two additions of one id change the
  number of today's records by at most 1.
\<close>

theorem addChosenItem_checks_limit_then_presence:
  assumes "chosenItems = fst (getChosenItemsToday today (Some ls))"
    and "w1 = resetDailyCountIfNeeded today (Some ls)"
    and "added = addChosenItem today now ident (Some ls)"
    and "again = addChosenItem today later ident (snd added)"
  shows "(int (length chosenItems) \<ge> 20 \<longrightarrow> added = (False, w1))
       \<and> (int (length chosenItems) < 20 \<and> ident \<in> chosen_id ` set chosenItems
            \<longrightarrow> added = (True, w1))
       \<and> (int (length chosenItems) < 20 \<and> ident \<notin> chosen_id ` set chosenItems
            \<longrightarrow> fst added = True
              \<and> getChosenItemsToday today (snd added)
                  = (chosenItems @ [\<lparr>chosen_id = ident, timestamp = now\<rparr>], snd added))
       \<and> fst (getChosenItemsToday today w1) = chosenItems
       \<and> length chosenItems \<le> length (fst (getChosenItemsToday today (snd again)))
       \<and> length (fst (getChosenItemsToday today (snd again))) \<le> length chosenItems + 1
       \<and> snd again = snd added"
proof -
  obtain ls' where r: "resetDailyCountIfNeeded today (Some ls) = Some ls'"
    and d: "indicai_last_reset_date ls' = Some today"
    using reset_shape [of today ls] by blast
  have g: "getChosenItemsToday today (Some ls') = (chosenItems, Some ls')"
    using getChosen_reset [of today "Some ls"] getChosen_pair [of today "Some ls"] r assms(1)
    by simp
  have r': "resetDailyCountIfNeeded today (Some ls') = Some ls'"
    using reset_idem [of today "Some ls"] r by simp
  let ?new = "\<lparr>chosen_id = ident, timestamp = now\<rparr>"
  let ?ls2 = "ls'\<lparr>indicai_chosen_today := Some (Stringified (chosenItems @ [?new]))\<rparr>"
  have g2: "getChosenItemsToday today (Some ?ls2) = (chosenItems @ [?new], Some ?ls2)"
    using d by (simp add: today_items_current)
  have r2: "resetDailyCountIfNeeded today (Some ?ls2) = Some ?ls2"
    using d by (simp add: reset_Some)
  have a: "added = (if int (length chosenItems) \<ge> 20 then (False, Some ls')
                    else if ident \<in> chosen_id ` set chosenItems then (True, Some ls')
                    else (True, Some ?ls2))"
    using assms(1,3) by (simp add: add_client_eq r DAILY_LIMIT_def Let_def)
  have b1: "addChosenItem today later ident (Some ls') = (fst added, Some ls')"
    if "int (length chosenItems) \<ge> 20 \<or> ident \<in> chosen_id ` set chosenItems"
    using that by (auto simp: a add_client_eq g r' DAILY_LIMIT_def Let_def)
  have b2: "snd (addChosenItem today later ident (Some ?ls2)) = Some ?ls2"
    by (simp add: add_client_eq g2 r2 Let_def)
  have b: "snd again = snd added"
  proof (cases "int (length chosenItems) \<ge> 20 \<or> ident \<in> chosen_id ` set chosenItems")
    case True
    then have "snd added = Some ls'" by (auto simp: a)
    then show ?thesis using b1 [OF True] by (simp add: assms(4))
  next
    case False
    then have "snd added = Some ?ls2" by (auto simp: a)
    then show ?thesis using b2 by (simp add: assms(4))
  qed
  show ?thesis
    unfolding b unfolding a assms(2) r
    by (simp add: g g2)
qed

text \<open>The theorem on a fresh day: the first addition appends, the second changes nothing.\<close>

theorem addChosenItem_checks_limit_then_presence_witness:
  "int (length ([] :: ChosenItem list)) < 20
   \<and> ''x'' \<notin> chosen_id ` set []
   \<and> fst (addChosenItem ''2025-03-01'' 7 ''x'' (Some fresh_storage)) = True
   \<and> fst (getChosenItemsToday ''2025-03-01''
             (snd (addChosenItem ''2025-03-01'' 7 ''x'' (Some fresh_storage))))
       = [\<lparr>chosen_id = ''x'', timestamp = 7\<rparr>]
   \<and> snd (addChosenItem ''2025-03-01'' 9 ''x''
             (snd (addChosenItem ''2025-03-01'' 7 ''x'' (Some fresh_storage))))
       = snd (addChosenItem ''2025-03-01'' 7 ''x'' (Some fresh_storage))"
proof -
  have t: "[] = fst (getChosenItemsToday ''2025-03-01'' (Some fresh_storage))"
    by (simp add: today_items_current fresh_storage_def)
  show ?thesis
    using addChosenItem_checks_limit_then_presence [OF t refl refl refl, of 7 "''x''" 9] by simp
qed

text \<open>
  C2 as stated fails when the id is present and the limit is reached: with twenty
  records of today, among them the id \<open>a\<close>, \<^verbatim>\<open>addChosenItem("a")\<close> returns false.
\<close>

theorem addChosenItem_present_at_limit_counterexample:
  "''a'' \<in> chosen_id ` set (fst (getChosenItemsToday ''2025-03-01'' (Some full_storage)))
   \<and> addChosenItem ''2025-03-01'' 1700000000001 ''a'' (Some full_storage)
       = (False, Some full_storage)"
  by (simp add: add_client_eq today_items_current reset_Some full_storage_def twenty_chosen_def
      DAILY_LIMIT_def)

section \<open>The random selector on the client side\<close>

text \<open>
  Claim C1, as the code has it. \<^verbatim>\<open>getRandomUnchosenSelection\<close> never calls
  \<^verbatim>\<open>addChosenItem\<close>: its only effect on the storage is the reconciliation of the date, so
  today's records are the same after the call as before, and every returned item is a
  candidate whose id is not among today's records.
\<close>

theorem selection_registers_nothing:
  assumes "\<And>xs. mset (shuffle xs) = mset xs"
    and "result = getRandomUnchosenSelection shuffle today items cnt (Some ls)"
  shows "snd result = resetDailyCountIfNeeded today (Some ls)
       \<and> fst (getChosenItemsToday today (snd result))
           = fst (getChosenItemsToday today (Some ls))
       \<and> (\<forall>item \<in> set (fst result).
             item \<in> set items
             \<and> item_id item \<notin> chosen_id ` set (fst (getChosenItemsToday today (snd result))))"
proof -
  let ?chosen = "fst (getChosenItemsToday today (Some ls))"
  let ?unchosen = "filter (\<lambda>item. item_id item \<notin> chosen_id ` set ?chosen) items"
  have s: "snd result = resetDailyCountIfNeeded today (Some ls)"
    by (simp add: assms(2) select_client_eq Let_def)
  have g: "fst (getChosenItemsToday today (snd result)) = ?chosen"
    by (simp add: s getChosen_reset)
  have sub: "set (fst result) \<subseteq> set (shuffle ?unchosen)"
    by (auto simp: assms(2) select_client_eq Let_def dest: in_set_takeD)
  have "set (shuffle ?unchosen) = set ?unchosen"
    using assms(1) by (metis set_mset_mset)
  with sub have "\<forall>item \<in> set (fst result).
      item \<in> set items \<and> item_id item \<notin> chosen_id ` set ?chosen"
    by auto
  with s g show ?thesis by simp
qed

text \<open>The theorem on a fresh day with two candidates.\<close>

theorem selection_registers_nothing_witness:
  "(\<forall>xs :: MediaItem list. mset (rev xs) = mset xs)
   \<and> fst (getChosenItemsToday ''2025-03-01''
         (snd (getRandomUnchosenSelection rev ''2025-03-01''
                 [medium ''1'' [], medium ''2'' []] 10 (Some fresh_storage))))
       = fst (getChosenItemsToday ''2025-03-01'' (Some fresh_storage))
   \<and> snd (getRandomUnchosenSelection rev ''2025-03-01''
             [medium ''1'' [], medium ''2'' []] 10 (Some fresh_storage))
       = Some fresh_storage"
proof -
  have p: "mset (rev xs) = mset xs" for xs :: "MediaItem list"
    by simp
  have r: "resetDailyCountIfNeeded ''2025-03-01'' (Some fresh_storage) = Some fresh_storage"
    by (simp add: reset_Some fresh_storage_def)
  show ?thesis
    using selection_registers_nothing [of rev _ "''2025-03-01''" "[medium ''1'' [], medium ''2'' []]" 10 fresh_storage,
              OF p refl]
    by (simp add: r)
qed

text \<open>
  C1 as stated fails: on a fresh day the selection of one out of one candidate returns
  that candidate, and today's records are empty afterwards.
\<close>

theorem selection_not_registered_counterexample:
  "fst (getRandomUnchosenSelection id ''2025-03-01'' [medium ''1'' []] 1 (Some fresh_storage))
     = [medium ''1'' []]
   \<and> fst (getChosenItemsToday ''2025-03-01''
        (snd (getRandomUnchosenSelection id ''2025-03-01'' [medium ''1'' []] 1
               (Some fresh_storage)))) = []"
  by (simp add: select_client_eq today_items_current reset_Some fresh_storage_def DAILY_LIMIT_def)

text \<open>
  Claim C4. On the client side the candidates are filtered by the ids of today's records,
  and the selection has \<open>min count (min remaining (length filtered))\<close> items, where a
  count that is zero or negative gives the empty selection; in particular nothing is
  selected when no choice remains. The selection is drawn from the filtered candidates.
\<close>

theorem selection_length_is_effective_count:
  assumes "\<And>xs. mset (shuffle xs) = mset xs"
    and "filtered = filter (\<lambda>item. item_id item
             \<notin> chosen_id ` set (fst (getChosenItemsToday today (Some ls)))) items"
    and "remaining = fst (getRemainingChoices today (Some ls))"
    and "effective = min cnt (min remaining (int (length filtered)))"
    and "selection = fst (getRandomUnchosenSelection shuffle today items cnt (Some ls))"
  shows "fst (filterOutChosenItems today items (Some ls)) = filtered
       \<and> length selection = nat effective
       \<and> (0 \<le> effective \<longrightarrow> int (length selection) = effective)
       \<and> (effective \<le> 0 \<longrightarrow> selection = [])
       \<and> (remaining = 0 \<longrightarrow> selection = [])
       \<and> mset selection \<subseteq># mset filtered"
proof -
  have len: "length (shuffle filtered) = length filtered"
    using assms(1) by (metis size_mset)
  have rem: "remaining = max 0 (DAILY_LIMIT - int (length (fst (getChosenItemsToday today (Some ls)))))"
    by (simp add: assms(3) getRemaining_eq)
  have sel: "selection = (if min cnt remaining \<le> 0 then []
                          else take (nat (min cnt remaining)) (shuffle filtered))"
    by (simp add: assms(5) select_client_eq Let_def rem assms(2))
  have n: "length selection = nat effective"
    unfolding sel assms(4) by (simp add: len) linarith
  have sub: "mset selection \<subseteq># mset filtered"
  proof -
    have "mset selection \<subseteq># mset (shuffle filtered)"
      unfolding sel
      by simp (metis append_take_drop_id mset_append mset_subset_eq_add_left)
    then show ?thesis using assms(1) by simp
  qed
  have e: "selection = []" if "effective \<le> 0"
    using n that by simp
  have z: "selection = []" if "remaining = 0"
    using that by (simp add: sel)
  show ?thesis
    using n sub e z by (simp add: filterOut_eq assms(2))
qed

text \<open>
  The theorem with three candidates, one of them chosen today, and a count of 10: two
  items are selected.
\<close>

theorem selection_length_is_effective_count_witness:
  "(\<forall>xs :: MediaItem list. mset (rev xs) = mset xs)
   \<and> fst (getRemainingChoices ''2025-03-01''
        (Some (fresh_storage\<lparr>indicai_chosen_today :=
                 Some (Stringified [\<lparr>chosen_id = ''2'', timestamp = 5\<rparr>])\<rparr>))) = 19
   \<and> (0::int) \<le> min 10 (min 19 2)
   \<and> length (fst (getRandomUnchosenSelection rev ''2025-03-01''
                [medium ''1'' [], medium ''2'' [], medium ''3'' []] 10
                (Some (fresh_storage\<lparr>indicai_chosen_today :=
                   Some (Stringified [\<lparr>chosen_id = ''2'', timestamp = 5\<rparr>])\<rparr>)))) = 2"
proof -
  have p: "mset (rev xs) = mset xs" for xs :: "MediaItem list"
    by simp
  let ?st = "fresh_storage\<lparr>indicai_chosen_today :=
                 Some (Stringified [\<lparr>chosen_id = ''2'', timestamp = 5\<rparr>])\<rparr>"
  have t: "fst (getChosenItemsToday ''2025-03-01'' (Some ?st)) = [\<lparr>chosen_id = ''2'', timestamp = 5\<rparr>]"
    by (simp add: today_items_current fresh_storage_def)
  have r: "fst (getRemainingChoices ''2025-03-01'' (Some ?st)) = 19"
    by (simp add: getRemaining_eq t DAILY_LIMIT_def)
  show ?thesis
    using selection_length_is_effective_count [of rev _ "''2025-03-01''" ?st "[medium ''1'' [], medium ''2'' [], medium ''3'' []]"
                 _ _ 10 _, OF p refl refl refl refl]
    by (simp add: r t medium_def)
qed

section \<open>Facts about insertion-ordered sets and the preference updaters\<close>

lemma fold_Set_add_prefix: "\<exists>zs. fold Set_add xs acc = acc @ zs"
proof (induction xs arbitrary: acc)
  case Nil
  then show ?case by simp
next
  case (Cons x xs)
  show ?case
  proof (cases "x \<in> set acc")
    case True
    then show ?thesis using Cons.IH [of acc] by (simp add: Set_add_def)
  next
    case False
    obtain zs where "fold Set_add xs (acc @ [x]) = (acc @ [x]) @ zs"
      using Cons.IH [of "acc @ [x]"] by blast
    then have "fold Set_add (x # xs) acc = acc @ (x # zs)"
      using False by (simp add: Set_add_def)
    then show ?thesis by blast
  qed
qed

lemma fold_Set_add_distinct: "distinct acc \<Longrightarrow> distinct (fold Set_add xs acc)"
  by (induction xs arbitrary: acc) (auto simp: Set_add_def)

lemma fold_Set_add_set: "set (fold Set_add xs acc) = set acc \<union> set xs"
  by (induction xs arbitrary: acc) (auto simp: Set_add_def)

lemma fold_Set_add_id: "distinct (acc @ xs) \<Longrightarrow> fold Set_add xs acc = acc @ xs"
  by (induction xs arbitrary: acc) (auto simp: Set_add_def)

lemma spread_Set_distinct: "distinct (spread_Set xs)"
  by (simp add: spread_Set_def fold_Set_add_distinct)

lemma spread_Set_set: "set (spread_Set xs) = set xs"
  by (simp add: spread_Set_def fold_Set_add_set)

lemma spread_Set_id: "distinct xs \<Longrightarrow> spread_Set xs = xs"
  using fold_Set_add_id [of "[]" xs] by (simp add: spread_Set_def)

lemma spread_Set_first_occurrence: "spread_Set xs = rev (remdups (rev xs))"
proof (induction xs rule: rev_induct)
  case Nil
  then show ?case by (simp add: spread_Set_def)
next
  case (snoc x xs)
  have "spread_Set (xs @ [x]) = Set_add x (spread_Set xs)"
    by (simp add: spread_Set_def)
  then show ?case
    using snoc.IH by (simp add: Set_add_def spread_Set_set)
qed

lemma push_genres_fold: "push_genres gs np = fold Set_add gs np"
  by (simp add: push_genres_def Set_add_def [abs_def])

lemma push_genres_distinct: "distinct np \<Longrightarrow> distinct (push_genres gs np)"
  by (simp add: push_genres_fold fold_Set_add_distinct)

lemma pref_inv_take_spread: "pref_inv cap (take cap (spread_Set xs))"
  by (simp add: pref_inv_def spread_Set_distinct)

lemma updateUserProfile_eq:
  "updateUserProfile ps i allItems =
     take 15 (spread_Set
       (if action i = Like \<or> action i = Superlike
        then (case find (\<lambda>m. item_id m = itemId i) allItems of
                Some it \<Rightarrow> push_genres (genres it) ps | None \<Rightarrow> ps)
        else ps))"
  by (simp add: updateUserProfile_def Let_def slice_0_nonneg)

lemma updateUserProfileWithInteraction_eq:
  "updateUserProfileWithInteraction fetch mock ps i =
     (case getMediaDetails fetch mock (itemId i) of
        None \<Rightarrow> ps
      | Some item \<Rightarrow>
          take 10 (spread_Set
            (if action i = Like \<or> action i = Superlike then push_genres (genres item) ps
             else ps)))"
  by (simp add: updateUserProfileWithInteraction_def Let_def slice_0_nonneg split: option.splits)

lemma pref_inv_id: "pref_inv cap ps \<Longrightarrow> take cap (spread_Set ps) = ps"
  by (simp add: pref_inv_def spread_Set_id)

lemma update_inv: "pref_inv 15 (updateUserProfile ps i allItems)"
  by (simp only: updateUserProfile_eq pref_inv_take_spread)

lemma update_with_inv:
  "pref_inv 10 ps \<Longrightarrow> pref_inv 10 (updateUserProfileWithInteraction fetch mock ps i)"
  by (simp add: updateUserProfileWithInteraction_eq pref_inv_take_spread split: option.splits)

lemma foldl_update_inv:
  "pref_inv 15 ps \<Longrightarrow>
   pref_inv 15 (foldl (\<lambda>p x. updateUserProfile p (fst x) (snd x)) ps history)"
  by (induction history arbitrary: ps) (simp_all add: update_inv)

lemma foldl_update_with_inv:
  "pref_inv 10 ps \<Longrightarrow>
   pref_inv 10 (foldl (\<lambda>p x. updateUserProfileWithInteraction (snd x) mock p (fst x)) ps history)"
  by (induction history arbitrary: ps) (simp_all add: update_with_inv)

section \<open>The preference updaters: updates that add nothing\<close>

text \<open>
  Claim C3, as the code has it. \<^verbatim>\<open>updateUserProfileWithInteraction\<close> returns
  \<^verbatim>\<open>currentPreferences\<close> itself when the item is not found. In the other cases that add no
  genre (the item is not found by \<^verbatim>\<open>updateUserProfile\<close>, or the action is dislike or skip)
  the final two statements still run: the result is the list without its repeated labels
  (the first occurrence of each stays), cut to the cap of 15 or 10. It is the list itself
  whenever the list has no duplicates and is no longer than the cap.
\<close>

theorem no_op_updates_only_normalise:
  "(getMediaDetails fetchTmdbDetails mockMediaItems (itemId i) = None
      \<longrightarrow> updateUserProfileWithInteraction fetchTmdbDetails mockMediaItems ps i = ps)
   \<and> (getMediaDetails fetchTmdbDetails mockMediaItems (itemId i) \<noteq> None
        \<and> (action i = Dislike \<or> action i = Skip)
      \<longrightarrow> updateUserProfileWithInteraction fetchTmdbDetails mockMediaItems ps i
            = take 10 (rev (remdups (rev ps))))
   \<and> (find (\<lambda>m. item_id m = itemId i) allMediaItems = None
        \<or> action i = Dislike \<or> action i = Skip
      \<longrightarrow> updateUserProfile ps i allMediaItems = take 15 (rev (remdups (rev ps))))
   \<and> (pref_inv 10 ps \<and> (action i = Dislike \<or> action i = Skip)
      \<longrightarrow> updateUserProfileWithInteraction fetchTmdbDetails mockMediaItems ps i = ps)
   \<and> (pref_inv 15 ps
        \<and> (find (\<lambda>m. item_id m = itemId i) allMediaItems = None
             \<or> action i = Dislike \<or> action i = Skip)
      \<longrightarrow> updateUserProfile ps i allMediaItems = ps)"
proof -
  have a: "updateUserProfile ps i allMediaItems = take 15 (spread_Set ps)"
    if "find (\<lambda>m. item_id m = itemId i) allMediaItems = None
        \<or> action i = Dislike \<or> action i = Skip"
    using that by (auto simp: updateUserProfile_eq)
  have b: "updateUserProfileWithInteraction fetchTmdbDetails mockMediaItems ps i
            = take 10 (spread_Set ps)"
    if "getMediaDetails fetchTmdbDetails mockMediaItems (itemId i) \<noteq> None"
       "action i = Dislike \<or> action i = Skip"
    using that by (auto simp: updateUserProfileWithInteraction_eq)
  have c: "updateUserProfileWithInteraction fetchTmdbDetails mockMediaItems ps i = ps"
    if "getMediaDetails fetchTmdbDetails mockMediaItems (itemId i) = None"
    using that by (simp add: updateUserProfileWithInteraction_eq)
  have d: "updateUserProfileWithInteraction fetchTmdbDetails mockMediaItems ps i = ps"
    if "pref_inv 10 ps" "action i = Dislike \<or> action i = Skip"
    using that b c pref_inv_id [of 10 ps]
    by (cases "getMediaDetails fetchTmdbDetails mockMediaItems (itemId i) = None") simp_all
  show ?thesis
    using a b c d pref_inv_id [of 15 ps]
    by (simp add: spread_Set_first_occurrence)
qed

text \<open>
  The theorem when the lookup finds nothing (a list with a duplicate comes back as it
  is), and on a skip with a list that satisfies the invariant.
\<close>

theorem no_op_updates_only_normalise_witness:
  "getMediaDetails (\<lambda>t i. Inr None) [] (itemId \<lparr>itemId = ''9'', action = Like\<rparr>) = None
   \<and> updateUserProfileWithInteraction (\<lambda>t i. Inr None) []
        [''Drama'', ''Drama''] \<lparr>itemId = ''9'', action = Like\<rparr> = [''Drama'', ''Drama'']
   \<and> pref_inv 15 [''Drama'', ''Comedy'']
   \<and> action \<lparr>itemId = ''1'', action = Skip\<rparr> = Skip
   \<and> updateUserProfile [''Drama'', ''Comedy''] \<lparr>itemId = ''1'', action = Skip\<rparr>
        [medium ''1'' [''Horror'']] = [''Drama'', ''Comedy'']"
proof -
  have g: "getMediaDetails (\<lambda>t i. Inr None) [] (itemId \<lparr>itemId = ''9'', action = Like\<rparr>) = None"
    by (simp add: getMediaDetails_def)
  have p: "pref_inv 15 [''Drama'', ''Comedy'']"
    by (simp add: pref_inv_def)
  show ?thesis
    using g p
      no_op_updates_only_normalise [of "\<lambda>t i. Inr None" "[]" "\<lparr>itemId = ''9'', action = Like\<rparr>" "[''Drama'', ''Drama'']"]
      no_op_updates_only_normalise [of _ _ "\<lparr>itemId = ''1'', action = Skip\<rparr>" "[''Drama'', ''Comedy'']"
             "[medium ''1'' [''Horror'']]"]
    by simp
qed

text \<open>
  C3 as stated fails on a list with a duplicate: \<^verbatim>\<open>updateUserProfile\<close> removes the
  duplicate although the item is not found, and both updaters remove it on a skip or a
  dislike of an item that is found.
\<close>

theorem no_op_update_changes_list_counterexample:
  "find (\<lambda>m. item_id m = ''9'') ([] :: MediaItem list) = None
   \<and> updateUserProfile [''Drama'', ''Drama''] \<lparr>itemId = ''9'', action = Like\<rparr> [] = [''Drama'']
   \<and> updateUserProfile [''Drama'', ''Drama''] \<lparr>itemId = ''1'', action = Skip\<rparr>
        [medium ''1'' [''Comedy'']] = [''Drama'']
   \<and> updateUserProfileWithInteraction (\<lambda>t i. Inr None) [medium ''1'' [''Comedy'']]
        [''Drama'', ''Drama''] \<lparr>itemId = ''1'', action = Dislike\<rparr> = [''Drama'']"
  by (simp add: updateUserProfile_eq updateUserProfileWithInteraction_eq getMediaDetails_def
      spread_Set_def Set_add_def medium_def)

section \<open>The preference updaters: the invariant\<close>

text \<open>
  Claim C5. A result of \<^verbatim>\<open>updateUserProfile\<close> has no duplicate label and at most 15
  labels; \<^verbatim>\<open>updateUserProfileWithInteraction\<close> keeps "no duplicate label, at most 10
  labels"; and so does every history of interactions folded through either updater one
  interaction at a time, from a list that satisfies the invariant. Each interaction of
  a history comes with the catalog (or the lookup) of its call.
\<close>

theorem preference_list_invariant:
  "pref_inv 15 (updateUserProfile ps i allMediaItems)
   \<and> (pref_inv 10 ps
        \<longrightarrow> pref_inv 10 (updateUserProfileWithInteraction fetchTmdbDetails mockMediaItems ps i))
   \<and> (pref_inv 15 ps
        \<longrightarrow> pref_inv 15 (foldl (\<lambda>p x. updateUserProfile p (fst x) (snd x)) ps history))
   \<and> (pref_inv 10 ps
        \<longrightarrow> pref_inv 10
              (foldl (\<lambda>p x. updateUserProfileWithInteraction (snd x) mockMediaItems p (fst x))
                 ps history'))"
  by (simp add: update_inv update_with_inv foldl_update_inv foldl_update_with_inv)

text \<open>
  The theorem on the list \<open>[Drama]\<close>: a like of an item with the genres Drama and Comedy
  followed by a dislike gives \<open>[Drama, Comedy]\<close>, and so does a superlike of that item
  through the updater with the cap of 10, whose lookup finds the item as a series.
\<close>

theorem preference_list_invariant_witness:
  "pref_inv 15 [''Drama'']
   \<and> foldl (\<lambda>p x. updateUserProfile p (fst x) (snd x)) [''Drama'']
        [(\<lparr>itemId = ''1'', action = Like\<rparr>, [medium ''1'' [''Drama'', ''Comedy'']]),
         (\<lparr>itemId = ''2'', action = Dislike\<rparr>, [medium ''2'' [''Horror'']])]
       = [''Drama'', ''Comedy'']
   \<and> pref_inv 15 [''Drama'', ''Comedy'']
   \<and> pref_inv 10 [''Drama'']
   \<and> foldl (\<lambda>p x. updateUserProfileWithInteraction (snd x) [] p (fst x)) [''Drama'']
        [(\<lparr>itemId = ''1'', action = Superlike\<rparr>,
          (\<lambda>t i. if t = ''movie'' then Inr None
                 else Inr (Some (medium ''1'' [''Drama'', ''Comedy'']))))]
       = [''Drama'', ''Comedy'']
   \<and> pref_inv 10 (foldl (\<lambda>p x. updateUserProfileWithInteraction (snd x) [] p (fst x)) [''Drama'']
        [(\<lparr>itemId = ''1'', action = Superlike\<rparr>,
          (\<lambda>t i. if t = ''movie'' then Inr None
                 else Inr (Some (medium ''1'' [''Drama'', ''Comedy'']))))])"
proof -
  have p: "pref_inv 15 [''Drama'']" "pref_inv 10 [''Drama'']"
    by (simp_all add: pref_inv_def)
  have e: "foldl (\<lambda>p x. updateUserProfile p (fst x) (snd x)) [''Drama'']
        [(\<lparr>itemId = ''1'', action = Like\<rparr>, [medium ''1'' [''Drama'', ''Comedy'']]),
         (\<lparr>itemId = ''2'', action = Dislike\<rparr>, [medium ''2'' [''Horror'']])]
       = [''Drama'', ''Comedy'']"
    by (simp add: updateUserProfile_eq push_genres_fold spread_Set_def Set_add_def medium_def)
  have e': "foldl (\<lambda>p x. updateUserProfileWithInteraction (snd x) [] p (fst x)) [''Drama'']
        [(\<lparr>itemId = ''1'', action = Superlike\<rparr>,
          (\<lambda>t i. if t = ''movie'' then Inr None
                 else Inr (Some (medium ''1'' [''Drama'', ''Comedy'']))))]
       = [''Drama'', ''Comedy'']"
    by (simp add: updateUserProfileWithInteraction_eq getMediaDetails_def push_genres_fold
        spread_Set_def Set_add_def medium_def)
  note t = preference_list_invariant [where ps = "[''Drama'']" and mockMediaItems = "[]"
            and history = "[(\<lparr>itemId = ''1'', action = Like\<rparr>, [medium ''1'' [''Drama'', ''Comedy'']]),
              (\<lparr>itemId = ''2'', action = Dislike\<rparr>, [medium ''2'' [''Horror'']])]"
            and history' = "[(\<lparr>itemId = ''1'', action = Superlike\<rparr>,
          (\<lambda>t i. if t = ''movie'' then Inr None
                 else Inr (Some (medium ''1'' [''Drama'', ''Comedy'']))))]"]
  have a: "pref_inv 15 (foldl (\<lambda>p x. updateUserProfile p (fst x) (snd x)) [''Drama'']
        [(\<lparr>itemId = ''1'', action = Like\<rparr>, [medium ''1'' [''Drama'', ''Comedy'']]),
         (\<lparr>itemId = ''2'', action = Dislike\<rparr>, [medium ''2'' [''Horror'']])])"
    using t p(1) by blast
  have b: "pref_inv 10 (foldl (\<lambda>p x. updateUserProfileWithInteraction (snd x) [] p (fst x))
        [''Drama'']
        [(\<lparr>itemId = ''1'', action = Superlike\<rparr>,
          (\<lambda>t i. if t = ''movie'' then Inr None
                 else Inr (Some (medium ''1'' [''Drama'', ''Comedy'']))))])"
    using t p(2) by blast
  have a': "pref_inv 15 [''Drama'', ''Comedy'']"
    using a by (simp only: e)
  show ?thesis
    by (intro conjI) (rule p(1), rule e, rule a', rule p(2), rule e', rule b)
qed

section \<open>Facts about the re-ranker\<close>

lemma first_unique_matching_seen:
  "set seen = set seen' \<Longrightarrow>
   first_unique_matching n seen ids ts = first_unique_matching n seen' ids ts"
proof (induction ts arbitrary: n seen seen')
  case Nil
  then show ?case by simp
next
  case (Cons t ts)
  have "set (t # seen) = set (t # seen')"
    using Cons.prems by simp
  then have "first_unique_matching (n - 1) (t # seen) ids ts
           = first_unique_matching (n - 1) (t # seen') ids ts"
    by (rule Cons.IH)
  moreover have "first_unique_matching n seen ids ts = first_unique_matching n seen' ids ts"
    using Cons.prems by (rule Cons.IH)
  ultimately show ?case
    using Cons.prems by simp
qed

lemma first_unique_matching_0: "first_unique_matching 0 seen ids ts = []"
  by (cases ts) simp_all

lemma take_fold_Set_add:
  "take (length acc) (fold Set_add xs acc) = acc"
  using fold_Set_add_prefix [of xs acc] by auto

lemma take_fold_filter:
  "take (length acc + n) (fold Set_add (filter (\<lambda>t. t \<in> set ids) ts) acc)
     = acc @ first_unique_matching n acc ids ts"
proof (induction ts arbitrary: acc n)
  case Nil
  then show ?case by simp
next
  case (Cons t ts)
  show ?case
  proof (cases "t \<in> set ids \<and> t \<notin> set acc")
    case False
    then show ?thesis
      using Cons.IH [of acc n] take_fold_Set_add [of acc "filter (\<lambda>t. t \<in> set ids) ts"]
      by (auto simp: Set_add_def first_unique_matching_0)
  next
    case True
    show ?thesis
    proof (cases n)
      case 0
      then show ?thesis
        using True take_fold_Set_add [of acc "filter (\<lambda>t. t \<in> set ids) (t # ts)"]
        by simp
    next
      case (Suc m)
      have s: "first_unique_matching m (acc @ [t]) ids ts = first_unique_matching m (t # acc) ids ts"
        by (rule first_unique_matching_seen) simp
      show ?thesis
        using True Suc Cons.IH [of "acc @ [t]" m] by (simp add: Set_add_def s)
    qed
  qed
qed

lemma list_ex_item_id:
  "list_ex (\<lambda>item. item_id item = t) items = (t \<in> set (map item_id items))"
  by (auto simp: list_ex_iff)

lemma parse_refines:
  "parseGeminiResponse response candidates
     = first_unique_matching 10 [] (map item_id candidates) (match_all None response)"
  using take_fold_filter [of "[]" 10 "map item_id candidates" "match_all None response"]
  by (simp add: parseGeminiResponse_def Let_def slice_0_nonneg spread_Set_def list_ex_item_id)

lemma match_all_numeric:
  "t \<in> set (match_all prev s) \<Longrightarrow> t \<noteq> [] \<and> list_all is_digit t"
proof (induction prev s rule: match_all.induct)
  case (1 prev)
  then show ?case by simp
next
  case (2 prev c cs)
  show ?case
  proof (cases "is_digit c \<and> \<not> word_before prev \<and> \<not> word_ahead (dropWhile is_digit cs)")
    case True
    then have "t = c # takeWhile is_digit cs
             \<or> t \<in> set (match_all (Some (last (c # takeWhile is_digit cs))) (dropWhile is_digit cs))"
      using "2.prems" by simp
    then show ?thesis
    proof
      assume "t = c # takeWhile is_digit cs"
      then show ?thesis
        using True by (auto simp: list_all_iff dest: set_takeWhileD)
    next
      assume "t \<in> set (match_all (Some (last (c # takeWhile is_digit cs))) (dropWhile is_digit cs))"
      then show ?thesis using "2.IH"(1) True by blast
    qed
  next
    case False
    then have "t \<in> set (match_all (Some c) cs)"
      using "2.prems" by auto
    then show ?thesis using "2.IH"(2) False by blast
  qed
qed

lemma parse_props:
  "distinct (parseGeminiResponse response candidates)
   \<and> length (parseGeminiResponse response candidates) \<le> 10
   \<and> set (parseGeminiResponse response candidates)
       \<subseteq> set (match_all None response) \<inter> item_id ` set candidates"
proof -
  let ?valid = "filter (\<lambda>ident. list_ex (\<lambda>item. item_id item = ident) candidates)
                  (match_all None response)"
  have p: "parseGeminiResponse response candidates = take 10 (spread_Set ?valid)"
    by (simp add: parseGeminiResponse_def Let_def slice_0_nonneg)
  have "set (take 10 (spread_Set ?valid)) \<subseteq> set ?valid"
    using set_take_subset [of 10 "spread_Set ?valid"] by (simp add: spread_Set_set)
  then show ?thesis
    unfolding p by (auto simp: spread_Set_distinct list_ex_iff)
qed

lemma find_item_id:
  "t \<in> item_id ` set candidates \<Longrightarrow>
   \<exists>item. find (\<lambda>item. item_id item = t) candidates = Some item
          \<and> item_id item = t \<and> item \<in> set candidates"
proof (induction candidates)
  case Nil
  then show ?case by simp
next
  case (Cons a candidates)
  then show ?case by (cases "item_id a = t") auto
qed

lemma recommended_items_known:
  assumes "set ids \<subseteq> item_id ` set candidates" and "length ids \<le> 10"
  shows "recommended_items ids candidates
           = map (\<lambda>t. the (find (\<lambda>item. item_id item = t) candidates)) ids
         \<and> map item_id (recommended_items ids candidates) = ids
         \<and> set (recommended_items ids candidates) \<subseteq> set candidates"
proof -
  have f: "\<forall>t \<in> set ids. \<exists>item. find (\<lambda>item. item_id item = t) candidates = Some item
          \<and> item_id item = t \<and> item \<in> set candidates"
    using assms(1) find_item_id by blast
  then have k: "filter (\<lambda>item. item \<noteq> None)
               (map (\<lambda>ident. find (\<lambda>item. item_id item = ident) candidates) ids)
             = map (\<lambda>ident. find (\<lambda>item. item_id item = ident) candidates) ids"
    by (auto simp: filter_id_conv)
  have r: "recommended_items ids candidates
           = map (\<lambda>t. the (find (\<lambda>item. item_id item = t) candidates)) ids"
    using assms(2) by (simp add: recommended_items_def k slice_0_nonneg comp_def del: not_None_eq)
  have m: "map item_id (map (\<lambda>t. the (find (\<lambda>item. item_id item = t) candidates)) ids) = ids"
  proof -
    have "\<forall>t \<in> set ids. item_id (the (find (\<lambda>item. item_id item = t) candidates)) = t"
      using f by fastforce
    then show ?thesis by (simp add: map_idI)
  qed
  have s: "set (map (\<lambda>t. the (find (\<lambda>item. item_id item = t) candidates)) ids) \<subseteq> set candidates"
    using f by auto
  show ?thesis
    using m s by (simp only: r)
qed

lemma recommended_items_unknown:
  "recommended_items ids candidates
     = take 10 (map (\<lambda>t. the (find (\<lambda>item. item_id item = t) candidates))
                  (filter (\<lambda>t. t \<in> item_id ` set candidates) ids))"
proof -
  have n: "(find (\<lambda>item. item_id item = t) candidates \<noteq> None) = (t \<in> item_id ` set candidates)" for t
    by (auto simp: find_None_iff)
  show ?thesis
    by (simp add: recommended_items_def slice_0_nonneg filter_map comp_def n del: not_None_eq)
qed

section \<open>The re-ranker: extraction and reordering\<close>

text \<open>
  Claim C7. The ids that \<^verbatim>\<open>parseGeminiResponse\<close> extracts are the first 10 distinct tokens
  of the response, in order of appearance, that are the id of some candidate, where a
  token is a match of \<^verbatim>\<open>/\b\d+\b/g\<close>: a non-empty run of digits. Tokens that match no
  candidate are ignored. \<^verbatim>\<open>recommended_items\<close> maps a list of ids to the candidates with
  these ids, in the order of the ids, and drops the ids of no candidate; on the
  extracted ids it drops nothing, so the ids of the items that the re-ranker returns are
  the extracted ids. If no id is extracted, the list that the orchestrator goes on with
  is the list of candidates as it was. The ids 3, 1 over the candidates 1, 2, 3 give the
  items 3, 1.
\<close>

theorem reranker_extraction_and_reordering:
  "parseGeminiResponse response candidates
     = first_unique_matching 10 [] (map item_id candidates) (match_all None response)
   \<and> (\<forall>t \<in> set (match_all None response). t \<noteq> [] \<and> list_all is_digit t)
   \<and> distinct (parseGeminiResponse response candidates)
   \<and> length (parseGeminiResponse response candidates) \<le> 10
   \<and> set (parseGeminiResponse response candidates)
       \<subseteq> set (match_all None response) \<inter> item_id ` set candidates
   \<and> recommended_items ids candidates
       = take 10 (map (\<lambda>t. the (find (\<lambda>item. item_id item = t) candidates))
                    (filter (\<lambda>t. t \<in> item_id ` set candidates) ids))
   \<and> (key \<noteq> []
        \<and> callGemini key userPreferences (slice userHistory (- 20) (int (length userHistory)))
              candidates = Inr response
       \<longrightarrow> getGeminiPersonalizedRecommendations (Some key) callGemini userPreferences userHistory
              candidates
             = recommended_items (parseGeminiResponse response candidates) candidates
           \<and> map item_id (getGeminiPersonalizedRecommendations (Some key) callGemini
                  userPreferences userHistory candidates)
             = parseGeminiResponse response candidates
           \<and> set (getGeminiPersonalizedRecommendations (Some key) callGemini userPreferences
                  userHistory candidates) \<subseteq> set candidates
           \<and> (parseGeminiResponse response candidates = []
               \<longrightarrow> finalRecommendations
                     (getGeminiPersonalizedRecommendations (Some key) callGemini userPreferences
                        userHistory candidates) candidates
                   = candidates))
   \<and> recommended_items [''3'', ''1''] [medium ''1'' [], medium ''2'' [], medium ''3'' []]
       = [medium ''3'' [], medium ''1'' []]"
proof -
  note p = parse_props [of response candidates]
  have k: "set (parseGeminiResponse response candidates) \<subseteq> item_id ` set candidates"
    using p by blast
  have l: "length (parseGeminiResponse response candidates) \<le> 10"
    using p by blast
  note r = recommended_items_known [OF k l]
  have g: "getGeminiPersonalizedRecommendations (Some key) callGemini userPreferences userHistory
              candidates
             = recommended_items (parseGeminiResponse response candidates) candidates"
    if "key \<noteq> []"
       "callGemini key userPreferences (slice userHistory (- 20) (int (length userHistory)))
              candidates = Inr response"
    using that by (simp add: getGeminiPersonalizedRecommendations_def Let_def)
  have e: "recommended_items [] candidates = []"
    by (simp add: recommended_items_def slice_def)
  have x: "recommended_items [''3'', ''1''] [medium ''1'' [], medium ''2'' [], medium ''3'' []]
       = [medium ''3'' [], medium ''1'' []]"
    by (simp add: recommended_items_def slice_def medium_def)
  have n: "\<forall>t \<in> set (match_all None response). t \<noteq> [] \<and> list_all is_digit t"
    using match_all_numeric by blast
  have f: "finalRecommendations [] candidates = candidates"
    by (simp add: finalRecommendations_def)
  have G: "key \<noteq> []
        \<and> callGemini key userPreferences (slice userHistory (- 20) (int (length userHistory)))
              candidates = Inr response
       \<longrightarrow> getGeminiPersonalizedRecommendations (Some key) callGemini userPreferences userHistory
              candidates
             = recommended_items (parseGeminiResponse response candidates) candidates
           \<and> map item_id (getGeminiPersonalizedRecommendations (Some key) callGemini
                  userPreferences userHistory candidates)
             = parseGeminiResponse response candidates
           \<and> set (getGeminiPersonalizedRecommendations (Some key) callGemini userPreferences
                  userHistory candidates) \<subseteq> set candidates
           \<and> (parseGeminiResponse response candidates = []
               \<longrightarrow> finalRecommendations
                     (getGeminiPersonalizedRecommendations (Some key) callGemini userPreferences
                        userHistory candidates) candidates
                   = candidates)"
  proof (intro impI, elim conjE)
    assume h: "key \<noteq> []"
       "callGemini key userPreferences (slice userHistory (- 20) (int (length userHistory)))
              candidates = Inr response"
    show "getGeminiPersonalizedRecommendations (Some key) callGemini userPreferences userHistory
              candidates
             = recommended_items (parseGeminiResponse response candidates) candidates
           \<and> map item_id (getGeminiPersonalizedRecommendations (Some key) callGemini
                  userPreferences userHistory candidates)
             = parseGeminiResponse response candidates
           \<and> set (getGeminiPersonalizedRecommendations (Some key) callGemini userPreferences
                  userHistory candidates) \<subseteq> set candidates
           \<and> (parseGeminiResponse response candidates = []
               \<longrightarrow> finalRecommendations
                     (getGeminiPersonalizedRecommendations (Some key) callGemini userPreferences
                        userHistory candidates) candidates
                   = candidates)"
      unfolding g [OF h]
      by (intro conjI impI)
         (rule refl, rule r [THEN conjunct2, THEN conjunct1], rule r [THEN conjunct2, THEN conjunct2],
          simp add: e f)
  qed
  show ?thesis
    apply (intro conjI)
    subgoal by (rule parse_refines)
    subgoal by (rule n)
    subgoal using p by blast
    subgoal using p by blast
    subgoal using p by blast
    subgoal by (rule recommended_items_unknown)
    subgoal by (rule G)
    subgoal by (rule x)
    done
qed

text \<open>
  The theorem on a free-form response: the tokens are 3, 1, 77 and 3 (\<open>2b\<close> is no token),
  the extracted ids are 3 and 1, and the re-ranker returns the items 3 and 1.
\<close>

theorem reranker_extraction_and_reordering_witness:
  "''key'' \<noteq> []
   \<and> (\<lambda>k p h c. Inr ''Sugiro 3, depois 1 e 77; 3 de novo, nunca 2b'' :: error + string)
        ''key'' [''Drama''] (slice [] (- 20) (int (length ([] :: UserInteraction list))))
        [medium ''1'' [], medium ''2'' [], medium ''3'' []]
       = Inr ''Sugiro 3, depois 1 e 77; 3 de novo, nunca 2b''
   \<and> match_all None ''Sugiro 3, depois 1 e 77; 3 de novo, nunca 2b''
       = [''3'', ''1'', ''77'', ''3'']
   \<and> parseGeminiResponse ''Sugiro 3, depois 1 e 77; 3 de novo, nunca 2b''
        [medium ''1'' [], medium ''2'' [], medium ''3'' []] = [''3'', ''1'']
   \<and> getGeminiPersonalizedRecommendations (Some ''key'')
        (\<lambda>k p h c. Inr ''Sugiro 3, depois 1 e 77; 3 de novo, nunca 2b'') [''Drama''] []
        [medium ''1'' [], medium ''2'' [], medium ''3'' []]
       = [medium ''3'' [], medium ''1'' []]"
proof -
  have m: "match_all None ''Sugiro 3, depois 1 e 77; 3 de novo, nunca 2b''
       = [''3'', ''1'', ''77'', ''3'']"
    by code_simp
  have p: "parseGeminiResponse ''Sugiro 3, depois 1 e 77; 3 de novo, nunca 2b''
        [medium ''1'' [], medium ''2'' [], medium ''3'' []] = [''3'', ''1'']"
    by code_simp
  note t = reranker_extraction_and_reordering [of "''Sugiro 3, depois 1 e 77; 3 de novo, nunca 2b''"
      "[medium ''1'' [], medium ''2'' [], medium ''3'' []]" "[''3'', ''1'']" "''key''"
      "\<lambda>k p h c. Inr ''Sugiro 3, depois 1 e 77; 3 de novo, nunca 2b''" "[''Drama'']" "[]"]
  have k: "''key'' \<noteq> []
   \<and> (\<lambda>k p h c. Inr ''Sugiro 3, depois 1 e 77; 3 de novo, nunca 2b'' :: error + string)
        ''key'' [''Drama''] (slice [] (- 20) (int (length ([] :: UserInteraction list))))
        [medium ''1'' [], medium ''2'' [], medium ''3'' []]
       = Inr ''Sugiro 3, depois 1 e 77; 3 de novo, nunca 2b''"
    by simp
  note t7 = t [THEN conjunct2, THEN conjunct2, THEN conjunct2, THEN conjunct2, THEN conjunct2,
                THEN conjunct2]
  note tG = t7 [THEN conjunct1, THEN mp, OF k, THEN conjunct1]
  note tX = t7 [THEN conjunct2]
  have fin: "getGeminiPersonalizedRecommendations (Some ''key'')
        (\<lambda>k p h c. Inr ''Sugiro 3, depois 1 e 77; 3 de novo, nunca 2b'') [''Drama''] []
        [medium ''1'' [], medium ''2'' [], medium ''3'' []]
       = [medium ''3'' [], medium ''1'' []]"
    using tG tX by (simp only: p)
  show ?thesis
    by (intro conjI)
       (rule k [THEN conjunct1], rule k [THEN conjunct2], rule m, rule p, rule fin)
qed

end
